theory Spec2Isabelle
  imports Complex_Main "HOL-Library.Log_Nat"
begin

section \<open>Floating-point values\<close>

text \<open>
  The arrays of \<^verbatim>\<open>utils.py\<close> hold IEEE 754 binary floating-point numbers: \<^verbatim>\<open>float32\<close>
  or \<^verbatim>\<open>float64\<close>, the data type of a tensor. A format has a precision \<open>p\<close> (the number
  of bits of the significand); its finite values are the multiples of the smallest
  positive value \<open>2\<^sup>-\<^sup>q\<close> that have at most \<open>p\<close> significant bits and lie below \<open>2\<^sup>e\<close>.
\<close>

datatype dtype = Float32 | Float64

fun precision :: "dtype \<Rightarrow> nat" where
  "precision Float32 = 24"
| "precision Float64 = 53"

fun denorm_exp :: "dtype \<Rightarrow> nat" where
  "denorm_exp Float32 = 149"
| "denorm_exp Float64 = 1074"

fun max_exp :: "dtype \<Rightarrow> nat" where
  "max_exp Float32 = 128"
| "max_exp Float64 = 1024"

text \<open>
  A value is finite, with a sign (\<open>True\<close> for negative) and a magnitude, so that there
  are two zeros; or infinite with a sign; or NaN.
\<close>

datatype fp = Fin bool real | Inf bool | NaN

fun fval :: "fp \<Rightarrow> real" where
  "fval (Fin s m) = (if s then - m else m)"
| "fval (Inf s) = 0"
| "fval NaN = 0"

definition fp_of_real :: "real \<Rightarrow> fp" where
  "fp_of_real x = Fin (x < 0) \<bar>x\<bar>"

text \<open>Rounding to the nearest integer, a tie to the even one.\<close>

definition round_even :: "real \<Rightarrow> int" where
  "round_even x =
     (let n = \<lfloor>x\<rfloor>; r = x - of_int n
      in if r < 1 / 2 then n else if 1 / 2 < r then n + 1 else if even n then n else n + 1)"

text \<open>
  Rounding a real to the format, to nearest and ties to even, the mode TensorFlow and
  NumPy compute in: the magnitude is counted in units of the smallest positive value, the
  \<open>k\<close> bits beyond the precision are rounded away, and a result that reaches \<open>2\<^sup>e\<close>
  overflows to the infinity. The sign is given apart, so that a result that rounds to
  zero keeps it.
\<close>

definition fround :: "dtype \<Rightarrow> bool \<Rightarrow> real \<Rightarrow> fp" where
  "fround dt s x =
     (let y = \<bar>x\<bar> * 2 ^ denorm_exp dt;
          k = nat (bitlen \<lfloor>y\<rfloor> - int (precision dt));
          r = round_even (y / 2 ^ k) * 2 ^ k
      in if 2 ^ (max_exp dt + denorm_exp dt) \<le> r then Inf s
         else Fin s (of_int r / 2 ^ denorm_exp dt))"

text \<open>
  A Python \<^verbatim>\<open>float\<close> literal is the \<^verbatim>\<open>float64\<close> nearest to its decimal; in an operation
  with a tensor it is converted to the data type of the tensor. An integer (a dimension)
  is converted in the same way.
\<close>

definition py_float :: "dtype \<Rightarrow> real \<Rightarrow> fp" where
  "py_float dt x = (case fround Float64 (x < 0) x of Fin s m \<Rightarrow> fround dt s m | v \<Rightarrow> v)"

definition fp_of_nat :: "dtype \<Rightarrow> nat \<Rightarrow> fp" where
  "fp_of_nat dt n = fround dt False (real n)"

text \<open>
  The operations of IEEE 754: the exact result, rounded. The sum of two opposite values
  is \<open>+0\<close>, and a zero sum of two zeros is negative only when both are.
\<close>

fun fneg :: "fp \<Rightarrow> fp" where
  "fneg (Fin s m) = Fin (\<not> s) m"
| "fneg (Inf s) = Inf (\<not> s)"
| "fneg NaN = NaN"

fun fabs :: "fp \<Rightarrow> fp" where
  "fabs (Fin s m) = Fin False m"
| "fabs (Inf s) = Inf False"
| "fabs NaN = NaN"

fun fadd :: "dtype \<Rightarrow> fp \<Rightarrow> fp \<Rightarrow> fp" where
  "fadd dt (Fin s a) (Fin t b) =
     (let r = fval (Fin s a) + fval (Fin t b)
      in if r = 0 then Fin (s \<and> t) 0 else fround dt (r < 0) r)"
| "fadd dt NaN _ = NaN"
| "fadd dt _ NaN = NaN"
| "fadd dt (Inf s) (Inf t) = (if s = t then Inf s else NaN)"
| "fadd dt (Inf s) _ = Inf s"
| "fadd dt _ (Inf t) = Inf t"

definition fsub :: "dtype \<Rightarrow> fp \<Rightarrow> fp \<Rightarrow> fp" where
  "fsub dt x y = fadd dt x (fneg y)"

fun fmul :: "dtype \<Rightarrow> fp \<Rightarrow> fp \<Rightarrow> fp" where
  "fmul dt (Fin s a) (Fin t b) = fround dt (s \<noteq> t) (a * b)"
| "fmul dt NaN _ = NaN"
| "fmul dt _ NaN = NaN"
| "fmul dt (Inf s) (Inf t) = Inf (s \<noteq> t)"
| "fmul dt (Inf s) (Fin t b) = (if b = 0 then NaN else Inf (s \<noteq> t))"
| "fmul dt (Fin s a) (Inf t) = (if a = 0 then NaN else Inf (s \<noteq> t))"

fun fdiv :: "dtype \<Rightarrow> fp \<Rightarrow> fp \<Rightarrow> fp" where
  "fdiv dt (Fin s a) (Fin t b) =
     (if b = 0 then (if a = 0 then NaN else Inf (s \<noteq> t)) else fround dt (s \<noteq> t) (a / b))"
| "fdiv dt NaN _ = NaN"
| "fdiv dt _ NaN = NaN"
| "fdiv dt (Inf s) (Inf t) = NaN"
| "fdiv dt (Inf s) (Fin t b) = Inf (s \<noteq> t)"
| "fdiv dt (Fin s a) (Inf t) = Fin (s \<noteq> t) 0"

fun fsqrt :: "dtype \<Rightarrow> fp \<Rightarrow> fp" where
  "fsqrt dt (Fin s a) =
     (if a = 0 then Fin s 0 else if s then NaN else fround dt False (sqrt a))"
| "fsqrt dt (Inf s) = (if s then NaN else Inf False)"
| "fsqrt dt NaN = NaN"

text \<open>
  The exponential and the logarithm are taken to be correctly rounded; the values the
  C standard fixes (\<^verbatim>\<open>exp(0) = 1\<close>, \<^verbatim>\<open>exp(-inf) = 0\<close>, \<^verbatim>\<open>log(1) = 0\<close>, \<^verbatim>\<open>log(0) = -inf\<close>)
  are exact.
\<close>

fun fexp :: "dtype \<Rightarrow> fp \<Rightarrow> fp" where
  "fexp dt (Fin s a) = fround dt False (exp (fval (Fin s a)))"
| "fexp dt (Inf s) = (if s then Fin False 0 else Inf False)"
| "fexp dt NaN = NaN"

fun flog :: "dtype \<Rightarrow> fp \<Rightarrow> fp" where
  "flog dt (Fin s a) =
     (if a = 0 then Inf True else if s then NaN
      else let r = ln a in if r = 0 then Fin False 0 else fround dt (r < 0) r)"
| "flog dt (Inf s) = (if s then NaN else Inf False)"
| "flog dt NaN = NaN"

text \<open>\<^verbatim>\<open>tf.maximum\<close> and \<^verbatim>\<open>tf.reduce_max\<close>: a NaN operand gives NaN.\<close>

fun fmax :: "fp \<Rightarrow> fp \<Rightarrow> fp" where
  "fmax NaN _ = NaN"
| "fmax _ NaN = NaN"
| "fmax (Inf s) (Inf t) = Inf (s \<and> t)"
| "fmax (Inf s) (Fin t b) = (if s then Fin t b else Inf s)"
| "fmax (Fin s a) (Inf t) = (if t then Fin s a else Inf t)"
| "fmax (Fin s a) (Fin t b) = (if fval (Fin s a) < fval (Fin t b) then Fin t b else Fin s a)"

text \<open>The comparison \<^verbatim>\<open>x <= y\<close>: false as soon as one side is NaN.\<close>

fun fle :: "fp \<Rightarrow> fp \<Rightarrow> bool" where
  "fle NaN _ = False"
| "fle _ NaN = False"
| "fle (Inf s) (Inf t) = (s \<or> \<not> t)"
| "fle (Inf s) (Fin t b) = s"
| "fle (Fin s a) (Inf t) = (\<not> t)"
| "fle (Fin s a) (Fin t b) = (fval (Fin s a) \<le> fval (Fin t b))"

definition fsquare :: "dtype \<Rightarrow> fp \<Rightarrow> fp" where
  "fsquare dt x = fmul dt x x"

text \<open>
  Reductions over one axis: sum, product, mean and maximum of a vector. The elements
  are accumulated in the order of the index, from \<open>+0\<close> (from 1 for the product, from
  \<open>-\<infinity>\<close> for the maximum); the mean divides the sum by the number of elements.
\<close>

definition fsum :: "dtype \<Rightarrow> fp list \<Rightarrow> fp" where
  "fsum dt xs = foldl (fadd dt) (Fin False 0) xs"

definition fprod :: "dtype \<Rightarrow> fp list \<Rightarrow> fp" where
  "fprod dt xs = foldl (fmul dt) (Fin False 1) xs"

definition fmean :: "dtype \<Rightarrow> fp list \<Rightarrow> fp" where
  "fmean dt xs = fdiv dt (fsum dt xs) (fp_of_nat dt (length xs))"

definition freduce_max :: "fp list \<Rightarrow> fp" where
  "freduce_max xs = foldl fmax (Inf True) xs"

section \<open>Arrays and errors\<close>

text \<open>
  A two-dimensional array with its shape: \<^verbatim>\<open>a.shape[0]\<close> is \<open>nrows\<close>, \<^verbatim>\<open>a.shape[1]\<close> is
  \<open>ncols\<close>. The shape is kept beside the rows, so that an array without rows still has
  its second dimension.
\<close>

record 'a array2 =
  nrows :: nat
  ncols :: nat
  rows :: "'a list list"

text \<open>A list of rows has shape \<open>n \<times> d\<close>.\<close>

definition is_shape :: "nat \<Rightarrow> nat \<Rightarrow> 'a list list \<Rightarrow> bool" where
  "is_shape n d xss = (length xss = n \<and> list_all (\<lambda>r. length r = d) xss)"

text \<open>
  The array of shape \<open>n \<times> d\<close> whose entries have the values \<open>xss\<close> (values of the
  format are meant; zero is \<open>+0\<close>).
\<close>

definition tensor :: "nat \<Rightarrow> nat \<Rightarrow> real list list \<Rightarrow> fp array2" where
  "tensor n d xss = \<lparr>nrows = n, ncols = d, rows = map (map fp_of_real) xss\<rparr>"

text \<open>
  The failures of the code: a failed \<^verbatim>\<open>assert\<close>, a \<^verbatim>\<open>ValueError\<close> with its arguments,
  and the error TensorFlow raises when the shapes of its operands do not fit.
\<close>

datatype error = AssertionError | ValueError "string list" | IncompatibleShapes

section \<open>Pairwise distances\<close>

text \<open>\<^verbatim>\<open>tf.matmul(a, b, transpose_b=True)\<close>: the inner dimensions must agree.\<close>

definition matmul_transpose_b :: "dtype \<Rightarrow> fp array2 \<Rightarrow> fp array2 \<Rightarrow> error + fp array2" where
  "matmul_transpose_b dt a b =
     (if ncols a \<noteq> ncols b then Inl IncompatibleShapes
      else Inr \<lparr>nrows = nrows a, ncols = nrows b,
                rows = map (\<lambda>r. map (\<lambda>c. fsum dt (map2 (fmul dt) r c)) (rows b)) (rows a)\<rparr>)"

text \<open>
  \<^verbatim>\<open>pairwise_l2_distance\<close>: \<open>norm1\<close> has shape \<open>[N, 1]\<close>, \<open>norm2\<close> has shape \<open>[1, M]\<close>, and
  their sum broadcasts to \<open>[N, M]\<close>.
\<close>

definition pairwise_l2_distance :: "dtype \<Rightarrow> fp array2 \<Rightarrow> fp array2 \<Rightarrow> error + fp array2" where
  "pairwise_l2_distance dt pts1 pts2 =
     (let norm1 = map (\<lambda>r. fsum dt (map (fsquare dt) r)) (rows pts1);
          norm2 = map (\<lambda>r. fsum dt (map (fsquare dt) r)) (rows pts2)
      in case matmul_transpose_b dt pts1 pts2 of
           Inl e \<Rightarrow> Inl e
         | Inr dots \<Rightarrow>
             Inr \<lparr>nrows = nrows pts1, ncols = nrows pts2,
                  rows = map2 (\<lambda>n1 prow.
                           map2 (\<lambda>n2 p. fmax (fsub dt (fadd dt n1 n2) (fmul dt (Fin False 2) p))
                                            (Fin False 0))
                             norm2 prow)
                         norm1 (rows dots)\<rparr>)"

text \<open>
  The subtraction \<^verbatim>\<open>pts1_tiled - pts2\<close> broadcasts along the last axis: the two lengths
  are equal, or one of them is 1. Other shapes are refused.
\<close>

definition broadcastable :: "nat \<Rightarrow> nat \<Rightarrow> bool" where
  "broadcastable d1 d2 = (d1 = d2 \<or> d1 = 1 \<or> d2 = 1)"

definition broadcast_sub :: "dtype \<Rightarrow> fp list \<Rightarrow> fp list \<Rightarrow> fp list" where
  "broadcast_sub dt xs ys =
     (if length xs = length ys then map2 (fsub dt) xs ys
      else if length xs = 1 then map (\<lambda>y. fsub dt (hd xs) y) ys
      else map (\<lambda>x. fsub dt x (hd ys)) xs)"

text \<open>\<^verbatim>\<open>tf.tile(tf.expand_dims(pts1, 1), [1, stack_size2, 1])\<close>: every row, \<open>m\<close> times.\<close>

definition tile_axis1 :: "'a list list \<Rightarrow> nat \<Rightarrow> 'a list list list" where
  "tile_axis1 a m = map (\<lambda>r. replicate m r) a"

definition pairwise_l1_distance :: "dtype \<Rightarrow> fp array2 \<Rightarrow> fp array2 \<Rightarrow> error + fp array2" where
  "pairwise_l1_distance dt pts1 pts2 =
     (let stack_size2 = nrows pts2;
          pts1_tiled = tile_axis1 (rows pts1) stack_size2
      in if \<not> broadcastable (ncols pts1) (ncols pts2) then Inl IncompatibleShapes
         else Inr \<lparr>nrows = nrows pts1, ncols = nrows pts2,
                   rows = map (\<lambda>tiled.
                            map2 (\<lambda>a b. fsum dt (map fabs (broadcast_sub dt a b))) tiled (rows pts2))
                          pts1_tiled\<rparr>)"

definition pairwise_linf_distance :: "dtype \<Rightarrow> fp array2 \<Rightarrow> fp array2 \<Rightarrow> error + fp array2" where
  "pairwise_linf_distance dt pts1 pts2 =
     (let stack_size2 = nrows pts2;
          pts1_tiled = tile_axis1 (rows pts1) stack_size2
      in if \<not> broadcastable (ncols pts1) (ncols pts2) then Inl IncompatibleShapes
         else Inr \<lparr>nrows = nrows pts1, ncols = nrows pts2,
                   rows = map (\<lambda>tiled.
                            map2 (\<lambda>a b. freduce_max (map fabs (broadcast_sub dt a b))) tiled (rows pts2))
                          pts1_tiled\<rparr>)"

section \<open>Scaled similarity\<close>

text \<open>An operation applied to every entry of an array.\<close>

definition array_map :: "('a \<Rightarrow> 'b) \<Rightarrow> 'a array2 \<Rightarrow> 'b array2" where
  "array_map f a = \<lparr>nrows = nrows a, ncols = ncols a, rows = map (map f) (rows a)\<rparr>"

text \<open>
  \<^verbatim>\<open>tf.linalg.normalize(x, ord=2, axis=-1)\<close>, first component: every row divided by its
  Euclidean norm \<^verbatim>\<open>sqrt(reduce_sum(x * x))\<close>. Nothing guards a norm of zero.
\<close>

definition normalize :: "dtype \<Rightarrow> fp array2 \<Rightarrow> fp array2" where
  "normalize dt x =
     \<lparr>nrows = nrows x, ncols = ncols x,
      rows = map (\<lambda>r. let norm = fsqrt dt (fsum dt (map (fsquare dt) r))
                      in map (\<lambda>v. fdiv dt v norm) r)
               (rows x)\<rparr>"

definition get_scaled_similarity ::
  "dtype \<Rightarrow> fp array2 \<Rightarrow> fp array2 \<Rightarrow> string \<Rightarrow> fp \<Rightarrow> error + fp array2" where
  "get_scaled_similarity dt embeddings1 embeddings2 similarity_type temperature =
     (let eps = py_float dt (1 / 10 ^ 9);
          similarity =
            (if similarity_type = ''l2sq'' then
               (case pairwise_l2_distance dt embeddings1 embeddings2 of
                  Inl e \<Rightarrow> Inl e
                | Inr dm \<Rightarrow> Inr (array_map (fmul dt (Fin True 1)) dm))
             else if similarity_type = ''l2'' then
               (case pairwise_l2_distance dt embeddings1 embeddings2 of
                  Inl e \<Rightarrow> Inl e
                | Inr dm \<Rightarrow>
                    Inr (array_map (\<lambda>x. fmul dt (Fin True 1) (fsqrt dt (fadd dt x eps))) dm))
             else if similarity_type = ''l1'' then
               (case pairwise_l1_distance dt embeddings1 embeddings2 of
                  Inl e \<Rightarrow> Inl e
                | Inr dm \<Rightarrow> Inr (array_map (fmul dt (Fin True 1)) dm))
             else if similarity_type = ''linf'' then
               (case pairwise_linf_distance dt embeddings1 embeddings2 of
                  Inl e \<Rightarrow> Inl e
                | Inr dm \<Rightarrow> Inr (array_map (fmul dt (Fin True 1)) dm))
             else if similarity_type = ''cosine'' then
               matmul_transpose_b dt (normalize dt embeddings1) (normalize dt embeddings2)
             else Inl (ValueError [''Similarity type not implemented: '', similarity_type]))
      in case similarity of
           Inl e \<Rightarrow> Inl e
         | Inr sim \<Rightarrow> Inr (array_map (\<lambda>s. fdiv dt s temperature) sim))"

section \<open>Divergences between diagonal Gaussians\<close>

text \<open>
  The intermediate arrays of shape \<open>[N, M, d]\<close> are lists of lists of vectors, those of
  shape \<open>[N, M, r, c]\<close> lists of lists of matrices. \<^verbatim>\<open>np.tile(a[np.newaxis], [N, 1, 1])\<close>
  repeats the whole array \<open>n\<close> times.
\<close>

definition tile_axis0 :: "'a list list \<Rightarrow> nat \<Rightarrow> 'a list list list" where
  "tile_axis0 a n = replicate n a"

definition map3d :: "('a \<Rightarrow> 'b) \<Rightarrow> 'a list list list \<Rightarrow> 'b list list list" where
  "map3d f a = map (map (map f)) a"

definition zip3d ::
  "('a \<Rightarrow> 'b \<Rightarrow> 'c) \<Rightarrow> 'a list list list \<Rightarrow> 'b list list list \<Rightarrow> 'c list list list" where
  "zip3d f a b = map2 (map2 (map2 f)) a b"

definition map2d :: "('a \<Rightarrow> 'b) \<Rightarrow> 'a list list \<Rightarrow> 'b list list" where
  "map2d f a = map (map f) a"

definition zip2d :: "('a \<Rightarrow> 'b \<Rightarrow> 'c) \<Rightarrow> 'a list list \<Rightarrow> 'b list list \<Rightarrow> 'c list list" where
  "zip2d f a b = map2 (map2 f) a b"

text \<open>\<^verbatim>\<open>v[..., np.newaxis]\<close>: a vector as a matrix of one column; and the transposition.\<close>

definition column :: "fp list \<Rightarrow> fp array2" where
  "column v = \<lparr>nrows = length v, ncols = 1, rows = map (\<lambda>x. [x]) v\<rparr>"

definition transpose_mat :: "fp array2 \<Rightarrow> fp array2" where
  "transpose_mat a =
     \<lparr>nrows = ncols a, ncols = nrows a,
      rows = map (\<lambda>j. map (\<lambda>i. rows a ! i ! j) [0..<nrows a]) [0..<ncols a]\<rparr>"

text \<open>\<^verbatim>\<open>np.diag\<close> of a vector: the square matrix with the vector on its diagonal.\<close>

definition np_diag :: "fp list \<Rightarrow> fp array2" where
  "np_diag v =
     \<lparr>nrows = length v, ncols = length v,
      rows = map (\<lambda>k. map (\<lambda>l. if k = l then v ! k else Fin False 0) [0..<length v])
               [0..<length v]\<rparr>"

text \<open>
  \<^verbatim>\<open>np.apply_along_axis(np.diag, -1, a)\<close> on an array of shape \<open>[N, M, d]\<close>. NumPy applies
  the function to the first vector before anything else, and raises \<^verbatim>\<open>ValueError\<close> when
  there is none, that is when \<open>N\<close> or \<open>M\<close> is 0.
\<close>

definition apply_along_axis_diag :: "fp list list list \<Rightarrow> error + fp array2 list list" where
  "apply_along_axis_diag a =
     (if a = [] \<or> list_ex (\<lambda>r. r = []) a
      then Inl (ValueError [''Cannot apply_along_axis when any iteration dimensions are 0''])
      else Inr (map (map np_diag) a))"

text \<open>
  The matrix product \<^verbatim>\<open>a @ b\<close>. Its operands below have the shapes \<open>[1, d]\<close>, \<open>[d, d]\<close>
  and \<open>[d, 1]\<close>, so the inner dimensions agree.
\<close>

definition matmul :: "dtype \<Rightarrow> fp array2 \<Rightarrow> fp array2 \<Rightarrow> fp array2" where
  "matmul dt a b =
     \<lparr>nrows = nrows a, ncols = ncols b,
      rows = map (\<lambda>i. map (\<lambda>j. fsum dt (map (\<lambda>k. fmul dt (rows a ! i ! k) (rows b ! k ! j))
                                           [0..<ncols a]))
                          [0..<ncols b])
               [0..<nrows a]\<rparr>"

text \<open>\<^verbatim>\<open>.reshape([N, M])\<close> of an array of shape \<open>[N, M, 1, 1]\<close>.\<close>

definition reshape_scalars :: "fp array2 list list \<Rightarrow> fp list list" where
  "reshape_scalars a = map2d (\<lambda>m. rows m ! 0 ! 0) a"

text \<open>
  Both functions expect \<open>logvars1\<close> of the shape of \<open>mus1\<close> and \<open>logvars2\<close> of the shape of
  \<open>mus2\<close>, as their docstring says.
\<close>

definition bhattacharyya_dist_mat ::
  "dtype \<Rightarrow> fp array2 \<Rightarrow> fp array2 \<Rightarrow> fp array2 \<Rightarrow> fp array2 \<Rightarrow> error + fp array2" where
  "bhattacharyya_dist_mat dt mus1 logvars1 mus2 logvars2 =
     (let N = nrows mus1; M = nrows mus2; embedding_dimension = ncols mus1
      in if ncols mus2 \<noteq> embedding_dimension then Inl AssertionError
         else
           let mus1t = tile_axis1 (rows mus1) M;
               logvars1t = tile_axis1 (rows logvars1) M;
               mus2t = tile_axis0 (rows mus2) N;
               logvars2t = tile_axis0 (rows logvars2) N;
               difference_mus = map2d column (zip3d (fsub dt) mus1t mus2t);
               difference_mus_T = map2d transpose_mat difference_mus;
               sigma_diag = map3d (fmul dt (Fin False (1 / 2)))
                              (zip3d (fadd dt) (map3d (fexp dt) logvars1t)
                                 (map3d (fexp dt) logvars2t))
           in case apply_along_axis_diag sigma_diag of
                Inl e \<Rightarrow> Inl e
              | Inr sigma_mat \<Rightarrow>
                  (case apply_along_axis_diag (map3d (fdiv dt (Fin False 1)) sigma_diag) of
                     Inl e \<Rightarrow> Inl e
                   | Inr sigma_mat_inv \<Rightarrow>
                       let determinant_sigma = map2d (fprod dt) sigma_diag;
                           determinant_sigma1 = map2d (\<lambda>v. fexp dt (fsum dt v)) logvars1t;
                           determinant_sigma2 = map2d (\<lambda>v. fexp dt (fsum dt v)) logvars2t;
                           term1 = map2d (fmul dt (Fin False (1 / 8)))
                                     (reshape_scalars
                                        (zip2d (matmul dt)
                                           (zip2d (matmul dt) difference_mus_T sigma_mat_inv)
                                           difference_mus));
                           term2 = map2d (\<lambda>x. fmul dt (Fin False (1 / 2)) (flog dt x))
                                     (zip2d (fdiv dt) determinant_sigma
                                        (map2d (fsqrt dt)
                                           (zip2d (fmul dt) determinant_sigma1
                                              determinant_sigma2)))
                       in Inr \<lparr>nrows = N, ncols = M, rows = zip2d (fadd dt) term1 term2\<rparr>))"

definition kl_divergence_mat ::
  "dtype \<Rightarrow> fp array2 \<Rightarrow> fp array2 \<Rightarrow> fp array2 \<Rightarrow> fp array2 \<Rightarrow> error + fp array2" where
  "kl_divergence_mat dt mus1 logvars1 mus2 logvars2 =
     (let N = nrows mus1; M = nrows mus2; embedding_dimension = ncols mus1
      in if ncols mus2 \<noteq> embedding_dimension then Inl AssertionError
         else
           let mus1t = tile_axis1 (rows mus1) M;
               logvars1t = tile_axis1 (rows logvars1) M;
               mus2t = tile_axis0 (rows mus2) N;
               logvars2t = tile_axis0 (rows logvars2) N;
               difference_mus = map2d column (zip3d (fsub dt) mus2t mus1t);
               difference_mus_T = map2d transpose_mat difference_mus;
               sigma1_diag = map3d (fexp dt) logvars1t;
               sigma2_diag = map3d (fexp dt) logvars2t;
               sigma2_inv_diag = map3d (\<lambda>l. fexp dt (fneg l)) logvars2t
           in case apply_along_axis_diag (map3d (fdiv dt (Fin False 1)) sigma2_diag) of
                Inl e \<Rightarrow> Inl e
              | Inr sigma2_mat_inv \<Rightarrow>
                  let term1 = map2d (fsum dt) (zip3d (fmul dt) sigma2_inv_diag sigma1_diag);
                      term2 = reshape_scalars
                                (zip2d (matmul dt)
                                   (zip2d (matmul dt) difference_mus_T sigma2_mat_inv)
                                   difference_mus);
                      log_determinant_sigma1 = map2d (fsum dt) logvars1t;
                      log_determinant_sigma2 = map2d (fsum dt) logvars2t;
                      kl_mat = map2d (\<lambda>x. fsub dt x (fp_of_nat dt embedding_dimension))
                                 (zip2d (fsub dt) log_determinant_sigma2 log_determinant_sigma1);
                      kl_mat1 = zip2d (fadd dt) kl_mat term1;
                      kl_mat2 = zip2d (fadd dt) kl_mat1 term2;
                      kl_mat3 = map2d (\<lambda>x. fmul dt x (Fin False (1 / 2))) kl_mat2
                  in Inr \<lparr>nrows = N, ncols = M, rows = kl_mat3\<rparr>)"

section \<open>Sandwich bounds of the mutual information\<close>

text \<open>
  \<^verbatim>\<open>tf.split(x, 2, axis=-1)\<close>: the two halves of every row; the last dimension must be
  even.
\<close>

definition tf_split2 :: "fp array2 \<Rightarrow> error + fp array2 \<times> fp array2" where
  "tf_split2 x =
     (if odd (ncols x) then Inl IncompatibleShapes
      else let h = ncols x div 2
           in Inr (\<lparr>nrows = nrows x, ncols = h, rows = map (take h) (rows x)\<rparr>,
                   \<lparr>nrows = nrows x, ncols = h, rows = map (drop h) (rows x)\<rparr>))"

text \<open>\<^verbatim>\<open>tf.linalg.diag_part\<close> of a square matrix with \<open>n\<close> rows, and \<^verbatim>\<open>tf.eye(n)\<close>.\<close>

definition diag_part :: "nat \<Rightarrow> fp list list \<Rightarrow> fp list" where
  "diag_part n p = map (\<lambda>i. p ! i ! i) [0..<n]"

definition eye :: "nat \<Rightarrow> fp list list" where
  "eye n = map (\<lambda>i. map (\<lambda>j. if i = j then Fin False 1 else Fin False 0) [0..<n]) [0..<n]"

text \<open>
  \<^verbatim>\<open>compute_batch\<close>. The encoder and the random generator are outside the model: the
  function takes \<open>encoded\<close>, the value of \<^verbatim>\<open>encoder(batch_data)\<close>, and \<open>sampled_u_values\<close>,
  the value drawn by \<^verbatim>\<open>tf.random.normal\<close>, which has the shape of \<open>mus\<close>. The two
  reshapes to \<open>eval_batch_size\<close> rows fail on a batch of another size. The function
  casts to \<^verbatim>\<open>float64\<close> and computes in that format; \<^verbatim>\<open>np.pi\<close> is the \<^verbatim>\<open>float64\<close>
  nearest to \<open>\<pi>\<close>, and the power is taken to be correctly rounded.
\<close>

definition np_pi :: real where
  "np_pi = 884279719003555 / 2 ^ 48"

definition compute_batch :: "nat \<Rightarrow> fp array2 \<Rightarrow> fp list list \<Rightarrow> error + fp \<times> fp" where
  "compute_batch eval_batch_size encoded sampled_u_values =
     (case tf_split2 encoded of
        Inl e \<Rightarrow> Inl e
      | Inr (mus, logvars) \<Rightarrow>
          let embedding_dimension = ncols mus;
              stddevs = map2d (\<lambda>l. fexp Float64 (fdiv Float64 l (Fin False 2))) (rows logvars)
          in if nrows mus \<noteq> eval_batch_size then Inl IncompatibleShapes
             else
               let distances_ui_muj =
                     map (\<lambda>u. map (\<lambda>mu. map2 (fsub Float64) u mu) (rows mus)) sampled_u_values;
                   normalized_distances_ui_muj =
                     map (\<lambda>ds. map2 (\<lambda>dv sd. map2 (fdiv Float64) dv sd) ds stddevs)
                       distances_ui_muj;
                   sum_logvars = map (fsum Float64) (rows logvars);
                   p_unnormalized =
                     map (\<lambda>ns. map2 (\<lambda>nv sl.
                                   fexp Float64
                                     (fsub Float64
                                        (fdiv Float64
                                           (fneg (fsum Float64 (map (fsquare Float64) nv)))
                                           (Fin False 2))
                                        (fdiv Float64 sl (Fin False 2))))
                                 ns sum_logvars)
                       normalized_distances_ui_muj;
                   normalization_factor =
                     fround Float64 False
                       ((2 * np_pi) powr
                          fval (fdiv Float64 (fp_of_nat Float64 embedding_dimension)
                                  (Fin False 2)));
                   p_ui_cond_xj = map2d (\<lambda>x. fdiv Float64 x normalization_factor) p_unnormalized;
                   p_ui_cond_xi = diag_part eval_batch_size p_ui_cond_xj;
                   infonce_lower =
                     fmean Float64
                       (map (flog Float64)
                          (map2 (fdiv Float64) p_ui_cond_xi (map (fmean Float64) p_ui_cond_xj)));
                   p_off_diagonal =
                     zip2d (\<lambda>x e. fmul Float64 x (fsub Float64 (Fin False 1) e)) p_ui_cond_xj
                       (eye eval_batch_size);
                   loo_upper =
                     fmean Float64
                       (map (flog Float64)
                          (map2 (fdiv Float64) p_ui_cond_xi (map (fmean Float64) p_off_diagonal)))
               in Inr (infonce_lower, loo_upper))"

text \<open>
  The loop over the batches taken from the dataset: \<open>batches\<close> holds, for each of the
  \<open>num_eval_batches\<close> batches, the encoder's output and the values drawn for it.
\<close>

fun bound_estimates_loop ::
  "nat \<Rightarrow> (fp array2 \<times> fp list list) list \<Rightarrow> error + (fp \<times> fp) list" where
  "bound_estimates_loop eval_batch_size [] = Inr []"
| "bound_estimates_loop eval_batch_size ((encoded, sampled) # batches) =
     (case compute_batch eval_batch_size encoded sampled of
        Inl e \<Rightarrow> Inl e
      | Inr est \<Rightarrow>
          (case bound_estimates_loop eval_batch_size batches of
             Inl e \<Rightarrow> Inl e
           | Inr ests \<Rightarrow> Inr (est # ests)))"

text \<open>
  \<^verbatim>\<open>np.mean(np.stack(bound_estimates, 0), 0)\<close>: the means of the lower and of the upper
  estimates; \<^verbatim>\<open>np.stack\<close> refuses an empty list.
\<close>

definition estimate_mi_sandwich_bounds ::
  "nat \<Rightarrow> (fp array2 \<times> fp list list) list \<Rightarrow> error + fp \<times> fp" where
  "estimate_mi_sandwich_bounds eval_batch_size batches =
     (case bound_estimates_loop eval_batch_size batches of
        Inl e \<Rightarrow> Inl e
      | Inr bound_estimates \<Rightarrow>
          if bound_estimates = [] then Inl (ValueError [''need at least one array to stack''])
          else Inr (fmean Float64 (map fst bound_estimates),
                    fmean Float64 (map snd bound_estimates)))"


section \<open>Reference formulas\<close>

text \<open>
  The quantity the distance kernel is meant to compute, written over the reals with the
  formula of the documentation: the squared Euclidean distance of two points.
\<close>

definition sq_euclidean :: "real list \<Rightarrow> real list \<Rightarrow> real" where
  "sq_euclidean a b = (\<Sum>k<length a. (a ! k - b ! k)\<^sup>2)"

text \<open>
  A value of the format: an infinity, NaN, or a finite value whose magnitude the rounding
  leaves as it is.
\<close>

definition is_float :: "dtype \<Rightarrow> fp \<Rightarrow> bool" where
  "is_float dt x =
     (case x of Fin s m \<Rightarrow> 0 \<le> m \<and> fround dt False m = Fin False m | _ \<Rightarrow> True)"

text \<open>
  The distance kernel of each kind, as the documentation names them: \<^verbatim>\<open>l2sq\<close>, \<^verbatim>\<open>l1\<close> and
  \<^verbatim>\<open>linf\<close> are the three pairwise functions, and \<^verbatim>\<open>l2\<close> is the square root of \<^verbatim>\<open>l2sq\<close> with
  the small constant \<^verbatim>\<open>1e-9\<close> added inside the root. The similarity of a kind, before the
  temperature, is the negated distance, or for \<^verbatim>\<open>cosine\<close> the product of the normalised
  arrays.
\<close>

definition distance_kernel ::
  "dtype \<Rightarrow> string \<Rightarrow> fp array2 \<Rightarrow> fp array2 \<Rightarrow> error + fp array2" where
  "distance_kernel dt kind a b =
     (if kind = ''l2sq'' then pairwise_l2_distance dt a b
      else if kind = ''l2'' then
        map_sum id (array_map (\<lambda>x. fsqrt dt (fadd dt x (py_float dt (1 / 10 ^ 9)))))
          (pairwise_l2_distance dt a b)
      else if kind = ''l1'' then pairwise_l1_distance dt a b
      else pairwise_linf_distance dt a b)"

definition similarity_kernel ::
  "dtype \<Rightarrow> string \<Rightarrow> fp array2 \<Rightarrow> fp array2 \<Rightarrow> error + fp array2" where
  "similarity_kernel dt kind a b =
     (if kind = ''cosine'' then matmul_transpose_b dt (normalize dt a) (normalize dt b)
      else map_sum id (array_map fneg) (distance_kernel dt kind a b))"

text \<open>An array of shape \<open>n \<times> d\<close>: its dimensions, and rows that have them.\<close>

definition has_shape :: "nat \<Rightarrow> nat \<Rightarrow> 'a array2 \<Rightarrow> bool" where
  "has_shape n d a = (nrows a = n \<and> ncols a = d \<and> is_shape n d (rows a))"

section \<open>Rounding\<close>

text \<open>
  Facts of the rounding: a value with at most \<open>p\<close> significant bits that fits the format
  rounds to itself, and so does every result of a rounding.
\<close>

lemma round_even_of_int [simp]: "round_even (of_int z) = z"
  by (simp add: round_even_def)

lemma round_even_zero [simp]: "round_even 0 = 0"
  using round_even_of_int[of 0] by simp

lemma round_even_nonneg: "0 \<le> x \<Longrightarrow> 0 \<le> round_even x"
  by (auto simp: round_even_def Let_def)

lemma round_even_le: "x \<le> of_int b \<Longrightarrow> round_even x \<le> b"
proof -
  assume a: "x \<le> of_int b"
  have f: "\<lfloor>x\<rfloor> \<le> b" using a by linarith
  show ?thesis
  proof (cases "\<lfloor>x\<rfloor> = b")
    case True
    then have "x = of_int b" using a by linarith
    then show ?thesis by simp
  next
    case False
    then have "\<lfloor>x\<rfloor> + 1 \<le> b" using f by simp
    then show ?thesis using f by (auto simp: round_even_def Let_def)
  qed
qed

lemma dtype_facts:
  "2 \<le> precision dt" "precision dt \<le> denorm_exp dt" "precision dt < max_exp dt"
  by (cases dt; simp)+

lemma fround_exact:
  assumes x: "\<bar>x\<bar> * 2 ^ denorm_exp dt = of_int (m * 2 ^ j)"
    and m: "0 \<le> m" "m < 2 ^ precision dt"
    and ov: "m * 2 ^ j < 2 ^ (max_exp dt + denorm_exp dt)"
  shows "fround dt s x = Fin s \<bar>x\<bar>"
proof (cases "m = 0")
  case True
  with x have "\<bar>x\<bar> = 0" by simp
  then show ?thesis by (simp add: fround_def)
next
  case False
  with m have mp: "0 < m" by simp
  let ?N = "m * 2 ^ j"
  have fl: "\<lfloor>\<bar>x\<bar> * 2 ^ denorm_exp dt\<rfloor> = ?N"
    unfolding x by (rule floor_of_int)
  have bl: "bitlen ?N = bitlen m + int j"
    using mp by simp
  have bm: "bitlen m \<le> int (precision dt)"
    using m by (simp add: bitlen_le_iff_power)
  define k where "k = nat (bitlen ?N - int (precision dt))"
  have kj: "k \<le> j" unfolding k_def bl using bm by simp
  have e: "(2::real) ^ j = 2 ^ (j - k) * 2 ^ k"
    using kj by (simp add: power_add[symmetric])
  have q: "\<bar>x\<bar> * 2 ^ denorm_exp dt / 2 ^ k = of_int (m * 2 ^ (j - k))"
    unfolding x by (simp add: e)
  have re: "round_even (\<bar>x\<bar> * 2 ^ denorm_exp dt / 2 ^ k) = m * 2 ^ (j - k)"
    unfolding q by (rule round_even_of_int)
  have r: "m * 2 ^ (j - k) * 2 ^ k = ?N"
    using kj by (simp add: power_add[symmetric])
  have val: "of_int ?N / 2 ^ denorm_exp dt = \<bar>x\<bar>"
    unfolding x[symmetric] by simp
  show ?thesis
    unfolding fround_def Let_def fl k_def[symmetric] re r using ov val by simp
qed

lemma fround_dyadic:
  assumes "0 \<le> m" "m < 2 ^ precision dt" "q \<le> denorm_exp dt"
  shows "fround dt s (of_int m / 2 ^ q) = Fin s (of_int m / 2 ^ q)"
proof -
  have a: "\<bar>of_int m / 2 ^ q :: real\<bar> = of_int m / 2 ^ q"
    using assms(1) by simp
  have e: "(2::real) ^ denorm_exp dt = 2 ^ q * 2 ^ (denorm_exp dt - q)"
    using assms(3) by (simp add: power_add[symmetric])
  have "of_int m / 2 ^ q * 2 ^ denorm_exp dt = (of_int (m * 2 ^ (denorm_exp dt - q)) :: real)"
    unfolding e by simp
  moreover have "m * 2 ^ (denorm_exp dt - q) < 2 ^ (max_exp dt + denorm_exp dt)"
  proof -
    have "m * 2 ^ (denorm_exp dt - q) < 2 ^ precision dt * 2 ^ (denorm_exp dt - q)"
      using assms(2) by simp
    also have "\<dots> = 2 ^ (precision dt + (denorm_exp dt - q))"
      by (simp add: power_add)
    also have "\<dots> \<le> 2 ^ (max_exp dt + denorm_exp dt)"
      using dtype_facts(3)[of dt] by (intro power_increasing) auto
    finally show ?thesis .
  qed
  ultimately show ?thesis
    using fround_exact[of "of_int m / 2 ^ q" dt m "denorm_exp dt - q" s] assms(1,2)
    unfolding a by simp
qed

lemma fround_of_int:
  assumes "0 \<le> n" "n \<le> 2 ^ precision dt"
  shows "fround dt s (of_int n) = Fin s (of_int n)"
proof (cases "n = 2 ^ precision dt")
  case False
  with assms have "n < 2 ^ precision dt" by simp
  with fround_dyadic[of n dt 0 s] assms(1) show ?thesis by simp
next
  case True
  have p: "0 < precision dt" using dtype_facts(1)[of dt] by simp
  have "\<bar>of_int n :: real\<bar> * 2 ^ denorm_exp dt = of_int (2 ^ (precision dt - 1) * 2 ^ (denorm_exp dt + 1))"
    unfolding True using p by (simp add: power_add[symmetric] del: power_Suc)
  moreover have "(2::int) ^ (precision dt - 1) * 2 ^ (denorm_exp dt + 1) < 2 ^ (max_exp dt + denorm_exp dt)"
    unfolding power_add[symmetric] using dtype_facts[of dt] by (intro power_strict_increasing) auto
  moreover have "(2::int) ^ (precision dt - 1) < 2 ^ precision dt"
    using p by (intro power_strict_increasing) auto
  ultimately show ?thesis
    using fround_exact[of "of_int n" dt "2 ^ (precision dt - 1)" "denorm_exp dt + 1" s] assms(1)
    by simp
qed


lemma fround_cases:
  "fround dt s x = Inf s \<or>
   (\<exists>v. fround dt s x = Fin s v \<and> 0 \<le> v \<and> (\<forall>t. fround dt t v = Fin t v))"
proof -
  define y where "y = \<bar>x\<bar> * 2 ^ denorm_exp dt"
  define k where "k = nat (bitlen \<lfloor>y\<rfloor> - int (precision dt))"
  define n where "n = round_even (y / 2 ^ k)"
  have y0: "0 \<le> y" by (simp add: y_def)
  have fr: "fround dt s x = (if 2 ^ (max_exp dt + denorm_exp dt) \<le> n * 2 ^ k then Inf s
                             else Fin s (of_int (n * 2 ^ k) / 2 ^ denorm_exp dt))"
    by (simp add: fround_def Let_def y_def k_def n_def)
  have "bitlen \<lfloor>y\<rfloor> \<le> int (precision dt + k)"
    by (simp add: k_def)
  then have "\<lfloor>y\<rfloor> < 2 ^ (precision dt + k)"
    using bitlen_le_iff_power[of "\<lfloor>y\<rfloor>" "int (precision dt + k)"] by (simp del: of_nat_add)
  then have "\<lfloor>y\<rfloor> + 1 \<le> 2 ^ (precision dt + k)" by simp
  then have "of_int (\<lfloor>y\<rfloor> + 1) \<le> (of_int (2 ^ (precision dt + k)) :: real)"
    by (rule of_int_le_iff[THEN iffD2])
  then have "y \<le> 2 ^ (precision dt + k)"
    by (simp add: algebra_simps) linarith
  then have "y / 2 ^ k \<le> 2 ^ precision dt"
    by (simp add: field_simps power_add)
  then have "y / 2 ^ k \<le> of_int (2 ^ precision dt)" by simp
  then have nle: "n \<le> 2 ^ precision dt"
    unfolding n_def by (rule round_even_le)
  have n0: "0 \<le> n"
    unfolding n_def using y0 by (intro round_even_nonneg) simp
  show ?thesis
  proof (cases "2 ^ (max_exp dt + denorm_exp dt) \<le> n * 2 ^ k")
    case True
    then show ?thesis by (simp add: fr)
  next
    case False
    define v :: real where "v = of_int (n * 2 ^ k) / 2 ^ denorm_exp dt"
    have v0: "0 \<le> v" unfolding v_def using n0 by simp
    have "\<bar>v\<bar> = v" using v0 by simp
    then have vs: "\<bar>v\<bar> * 2 ^ denorm_exp dt = of_int (n * 2 ^ k)"
      by (simp add: v_def)
    have ex: "fround dt t v = Fin t v" for t
    proof (cases "n = 2 ^ precision dt")
      case ne: False
      with nle have "n < 2 ^ precision dt" by simp
      from fround_exact[OF vs n0 this] False v0 show ?thesis by simp
    next
      case True
      have p: "0 < precision dt" using dtype_facts(1)[of dt] by simp
      have "n * 2 ^ k = 2 ^ (precision dt - 1) * 2 ^ (k + 1)"
        unfolding True using p by (simp add: power_add[symmetric] del: power_Suc)
      with vs False
      have a: "\<bar>v\<bar> * 2 ^ denorm_exp dt = of_int (2 ^ (precision dt - 1) * 2 ^ (k + 1))"
        and b: "(2::int) ^ (precision dt - 1) * 2 ^ (k + 1) < 2 ^ (max_exp dt + denorm_exp dt)"
        by simp_all
      have c: "(2::int) ^ (precision dt - 1) < 2 ^ precision dt"
        using p by (intro power_strict_increasing) auto
      from fround_exact[OF a _ c b] v0 show ?thesis by simp
    qed
    have "fround dt s x = Fin s v" using False by (simp add: fr v_def)
    with v0 ex show ?thesis by blast
  qed
qed



text \<open>Sums of integers that stay within the precision are exact.\<close>


lemma fround_abs: "fround dt s \<bar>x\<bar> = fround dt s x"
  by (simp add: fround_def)

lemma fround_minus [simp]: "fround dt s (- x) = fround dt s x"
  by (simp add: fround_def)

lemma fround_Ints:
  assumes "x \<in> \<int>" and "\<bar>x\<bar> \<le> 2 ^ precision dt"
  shows "fround dt s x = Fin s \<bar>x\<bar>"
proof -
  from assms(1) obtain z where z: "x = of_int z" by (rule Ints_cases)
  have a: "\<bar>x\<bar> = of_int \<bar>z\<bar>" by (simp add: z)
  have "(of_int \<bar>z\<bar> :: real) \<le> of_int (2 ^ precision dt)"
    using assms(2) unfolding a by simp
  then have "\<bar>z\<bar> \<le> 2 ^ precision dt" by (rule of_int_le_iff[THEN iffD1])
  then have "fround dt s (of_int \<bar>z\<bar>) = Fin s (of_int \<bar>z\<bar>)"
    by (intro fround_of_int) simp_all
  then show ?thesis
    unfolding a[symmetric] fround_abs .
qed





text \<open>The operations return values of the format.\<close>


lemma fround_sign:
  "fround dt False m = Fin False m \<Longrightarrow> fround dt t m = Fin t m"
  by (auto simp: fround_def Let_def split: if_splits)

lemma is_float_Fin: "is_float dt (Fin s m) \<Longrightarrow> fround dt t m = Fin t m"
  by (simp add: is_float_def fround_sign)

lemma is_float_simps [simp]: "is_float dt (Inf s)" "is_float dt NaN"
  by (simp_all add: is_float_def)

lemma fround_zero [simp]: "fround dt s 0 = Fin s 0"
  using fround_Ints[of 0 dt s] by simp

lemma fround_one [simp]: "fround dt s 1 = Fin s 1"
  using fround_Ints[of 1 dt s] by simp

lemma is_float_zero [simp]: "is_float dt (Fin s 0)"
  by (simp add: is_float_def)

lemma is_float_one [simp]: "is_float dt (Fin s 1)"
  by (simp add: is_float_def)

lemma is_float_fround [simp]: "is_float dt (fround dt s x)"
  using fround_cases[of dt s x] by (auto simp: is_float_def)

lemma is_float_fneg [simp]: "is_float dt (fneg x) = is_float dt x"
  by (cases x) (simp_all add: is_float_def)

lemma is_float_fabs [simp]: "is_float dt (fabs x) = is_float dt x"
  by (cases x) (simp_all add: is_float_def)

lemma is_float_fadd [simp]: "is_float dt (fadd dt x y)"
  by (cases x; cases y) (simp_all add: Let_def)

lemma is_float_fsub [simp]: "is_float dt (fsub dt x y)"
  by (simp add: fsub_def)

lemma is_float_fmul [simp]: "is_float dt (fmul dt x y)"
  by (cases x; cases y) simp_all

lemma is_float_fdiv [simp]: "is_float dt (fdiv dt x y)"
  by (cases x; cases y) simp_all

lemma is_float_fsqrt [simp]: "is_float dt (fsqrt dt x)"
  by (cases x) simp_all

lemma is_float_fmax: "is_float dt x \<Longrightarrow> is_float dt y \<Longrightarrow> is_float dt (fmax x y)"
  by (cases x; cases y) (simp_all del: fval.simps)

lemma is_float_foldl_fadd: "is_float dt acc \<Longrightarrow> is_float dt (foldl (fadd dt) acc xs)"
  by (induction xs arbitrary: acc) simp_all

lemma is_float_fsum [simp]: "is_float dt (fsum dt xs)"
  by (simp add: fsum_def is_float_foldl_fadd)

lemma is_float_foldl_fmax:
  "is_float dt acc \<Longrightarrow> \<forall>x\<in>set xs. is_float dt x \<Longrightarrow> is_float dt (foldl fmax acc xs)"
  by (induction xs arbitrary: acc) (simp_all add: is_float_fmax)

lemma is_float_freduce_max:
  "\<forall>x\<in>set xs. is_float dt x \<Longrightarrow> is_float dt (freduce_max xs)"
  by (simp add: freduce_max_def is_float_foldl_fmax)

text \<open>The product with \<open>-1\<close> and the quotient by 1 are exact.\<close>

lemma fmul_minus_one: "is_float dt x \<Longrightarrow> fmul dt (Fin True 1) x = fneg x"
  by (cases x) (simp_all add: is_float_Fin)

lemma fdiv_one: "is_float dt x \<Longrightarrow> fdiv dt x (Fin False 1) = x"
  by (cases x) (simp_all add: is_float_Fin)


section \<open>Squared Euclidean distance\<close>


lemma map2_map_map: "map2 f (map g xs) (map h ys) = map2 (\<lambda>x y. f (g x) (h y)) xs ys"
  by (simp add: zip_map_map split_def)

lemma map2_same: "map2 f xs xs = map (\<lambda>x. f x x) xs"
  by (simp add: zip_same_conv_map)

lemma sum_list_map2_nth:
  "length xs = length ys \<Longrightarrow> sum_list (map2 f xs ys) = (\<Sum>k<length xs. f (xs ! k) (ys ! k))"
  by (simp add: sum_list_sum_nth atLeast0LessThan)

lemma pairwise_l2_distance_rows:
  assumes "ncols pts1 = ncols pts2"
  shows "pairwise_l2_distance dt pts1 pts2
         = Inr \<lparr>nrows = nrows pts1, ncols = nrows pts2,
                rows = map (\<lambda>a. map (\<lambda>b.
                         fmax (fsub dt (fadd dt (fsum dt (map (fsquare dt) a))
                                                (fsum dt (map (fsquare dt) b)))
                                 (fmul dt (Fin False 2) (fsum dt (map2 (fmul dt) a b))))
                              (Fin False 0)) (rows pts2)) (rows pts1)\<rparr>"
  using assms
  unfolding pairwise_l2_distance_def matmul_transpose_b_def Let_def
  by (simp add: map2_map_map map2_same)

lemma square_expansion:
  fixes a b :: "real list"
  assumes "length a = length b"
  shows "(\<Sum>x\<leftarrow>a. x\<^sup>2) + (\<Sum>x\<leftarrow>b. x\<^sup>2) - 2 * sum_list (map2 (*) a b) = sq_euclidean a b"
proof -
  have "(\<Sum>x\<leftarrow>a. x\<^sup>2) + (\<Sum>x\<leftarrow>b. x\<^sup>2) - 2 * sum_list (map2 (*) a b)
        = sum_list (map2 (\<lambda>x y. (x - y)\<^sup>2) a b)"
    using assms
    by (induction a b rule: list_induct2) (simp_all add: power2_eq_square algebra_simps)
  also have "\<dots> = sq_euclidean a b"
    unfolding sq_euclidean_def by (rule sum_list_map2_nth[OF assms])
  finally show ?thesis .
qed

lemma sum_abs_products:
  fixes a b :: "real list"
  assumes "length a = length b"
  shows "2 * (\<Sum>(x, y)\<leftarrow>zip a b. \<bar>x * y\<bar>) \<le> (\<Sum>x\<leftarrow>a. x\<^sup>2) + (\<Sum>x\<leftarrow>b. x\<^sup>2)"
  using assms
proof (induction a b rule: list_induct2)
  case Nil
  then show ?case by simp
next
  case (Cons x xs y ys)
  have "0 \<le> (\<bar>x\<bar> - \<bar>y\<bar>)\<^sup>2" by simp
  then have "2 * \<bar>x * y\<bar> \<le> x\<^sup>2 + y\<^sup>2"
    by (simp add: power2_diff abs_mult)
  with Cons.IH show ?case by simp
qed


lemma sq_euclidean_le:
  assumes "length a = length b"
  shows "sq_euclidean a b \<le> 2 * ((\<Sum>x\<leftarrow>a. x\<^sup>2) + (\<Sum>x\<leftarrow>b. x\<^sup>2))"
proof -
  have "- (2 * sum_list (map2 (*) a b)) \<le> 2 * \<bar>sum_list (map2 (*) a b)\<bar>" by simp
  also have "\<bar>sum_list (map2 (*) a b)\<bar> \<le> (\<Sum>(x, y)\<leftarrow>zip a b. \<bar>x * y\<bar>)"
    using sum_list_abs[of "map2 (*) a b"] by (simp add: o_def split_def)
  finally show ?thesis
    using sum_abs_products[OF assms] square_expansion[OF assms] by simp
qed

























section \<open>Scaled similarity of the distance kinds\<close>


lemma array_map_array_map: "array_map f (array_map g a) = array_map (\<lambda>x. f (g x)) a"
  by (simp add: array_map_def o_def)

lemma array_map_cong_entries:
  assumes "\<forall>r\<in>set (rows a). \<forall>x\<in>set r. f x = g x"
  shows "array_map f a = array_map g a"
  using assms by (simp add: array_map_def cong: map_cong)

lemma in_set_map2E:
  assumes "x \<in> set (map2 f xs ys)"
  obtains a b where "x = f a b"
  using assms by auto

lemma pairwise_l2_distance_floats:
  assumes "pairwise_l2_distance dt a b = Inr D"
  shows "\<forall>r\<in>set (rows D). \<forall>x\<in>set r. is_float dt x"
proof (intro ballI)
  fix r x assume r: "r \<in> set (rows D)" and x: "x \<in> set r"
  from assms have D: "rows D = map2 (\<lambda>n1 prow.
        map2 (\<lambda>n2 p. fmax (fsub dt (fadd dt n1 n2) (fmul dt (Fin False 2) p)) (Fin False 0))
          (map (\<lambda>r. fsum dt (map (fsquare dt) r)) (rows b)) prow)
      (map (\<lambda>r. fsum dt (map (fsquare dt) r)) (rows a))
      (map (\<lambda>r. map (\<lambda>c. fsum dt (map2 (fmul dt) r c)) (rows b)) (rows a))"
    by (auto simp: pairwise_l2_distance_def matmul_transpose_b_def Let_def split: if_splits)
  from r obtain n1 prow where "r = map2 (\<lambda>n2 p. fmax (fsub dt (fadd dt n1 n2) (fmul dt (Fin False 2) p)) (Fin False 0))
          (map (\<lambda>r. fsum dt (map (fsquare dt) r)) (rows b)) prow"
    unfolding D by (rule in_set_map2E)
  with x obtain n2 p where "x = fmax (fsub dt (fadd dt n1 n2) (fmul dt (Fin False 2) p)) (Fin False 0)"
    by (auto elim: in_set_map2E)
  then show "is_float dt x" by (simp add: is_float_fmax)
qed

lemma broadcast_sub_floats: "\<forall>x\<in>set (broadcast_sub dt xs ys). is_float dt x"
  by (auto simp: broadcast_sub_def)

lemma pairwise_l1_distance_floats:
  assumes "pairwise_l1_distance dt a b = Inr D"
  shows "\<forall>r\<in>set (rows D). \<forall>x\<in>set r. is_float dt x"
  using assms
  by (auto simp: pairwise_l1_distance_def Let_def tile_axis1_def split: if_splits)

lemma pairwise_linf_distance_floats:
  assumes "pairwise_linf_distance dt a b = Inr D"
  shows "\<forall>r\<in>set (rows D). \<forall>x\<in>set r. is_float dt x"
  using assms
  by (auto simp: pairwise_linf_distance_def Let_def tile_axis1_def broadcast_sub_floats
      split: if_splits intro!: is_float_freduce_max)

lemma pairwise_defined:
  assumes "ncols a = ncols b"
  shows "\<exists>D. pairwise_l2_distance dt a b = Inr D" "\<exists>D. pairwise_l1_distance dt a b = Inr D"
    "\<exists>D. pairwise_linf_distance dt a b = Inr D"
  using assms
  by (simp_all add: pairwise_l2_distance_def matmul_transpose_b_def pairwise_l1_distance_def
      pairwise_linf_distance_def broadcastable_def Let_def)



lemma negated_scaled:
  assumes "\<forall>r\<in>set (rows D). \<forall>x\<in>set r. is_float dt x"
  shows "array_map (\<lambda>s. fdiv dt s t) (array_map (fmul dt (Fin True 1)) D)
         = array_map (\<lambda>x. fdiv dt (fneg x) t) D"
  unfolding array_map_array_map
  by (rule array_map_cong_entries) (use assms in \<open>simp add: fmul_minus_one\<close>)

lemma scaled_distance:
  assumes "ncols e1 = ncols e2"
    and "kind \<in> {''l2sq'', ''l2'', ''l1'', ''linf''}"
  shows "\<exists>K. distance_kernel dt kind e1 e2 = Inr K
             \<and> get_scaled_similarity dt e1 e2 kind t
                 = Inr (array_map (\<lambda>x. fdiv dt (fneg x) t) K)"
proof -
  from pairwise_defined[OF assms(1), of dt]
  obtain D2 D1 Di where D2: "pairwise_l2_distance dt e1 e2 = Inr D2"
    and D1: "pairwise_l1_distance dt e1 e2 = Inr D1"
    and Di: "pairwise_linf_distance dt e1 e2 = Inr Di"
    by blast
  note f2 = pairwise_l2_distance_floats[OF D2]
    and f1 = pairwise_l1_distance_floats[OF D1]
    and fi = pairwise_linf_distance_floats[OF Di]
  consider "kind = ''l2sq''" | "kind = ''l2''" | "kind = ''l1''" | "kind = ''linf''"
    using assms(2) by auto
  then show ?thesis
  proof cases
    case 1
    then show ?thesis
      by (simp add: distance_kernel_def get_scaled_similarity_def D2 negated_scaled[OF f2])
  next
    case 2
    have "array_map (\<lambda>s. fdiv dt s t)
            (array_map (\<lambda>x. fmul dt (Fin True 1) (fsqrt dt (fadd dt x (py_float dt (1 / 10 ^ 9))))) D2)
          = array_map (\<lambda>x. fdiv dt (fneg x) t)
              (array_map (\<lambda>x. fsqrt dt (fadd dt x (py_float dt (1 / 10 ^ 9)))) D2)"
      by (simp add: array_map_array_map fmul_minus_one)
    with 2 show ?thesis
      by (simp add: distance_kernel_def get_scaled_similarity_def D2 Let_def)
  next
    case 3
    then show ?thesis
      by (simp add: distance_kernel_def get_scaled_similarity_def D1 negated_scaled[OF f1])
  next
    case 4
    then show ?thesis
      by (simp add: distance_kernel_def get_scaled_similarity_def Di negated_scaled[OF fi])
  qed
qed

text \<open>
  C7: for point sets \<open>A\<close> (\<open>N \<times> d\<close>) and \<open>B\<close> (\<open>M \<times> d\<close>), each of the kinds \<^verbatim>\<open>l2sq\<close>, \<^verbatim>\<open>l2\<close>,
  \<^verbatim>\<open>l1\<close>, \<^verbatim>\<open>linf\<close> and every temperature \<open>t\<close> (any value of the format), the distance kernel of
  the kind returns an array, and \<open>get_scaled_similarity\<close> returns that array with every
  entry negated and divided by \<open>t\<close>. The product with \<open>-1.0\<close> is exact, and the division is
  that of the format.
\<close>

theorem get_scaled_similarity_distance:
  assumes "ncols e1 = ncols e2"
    and "kind \<in> {''l2sq'', ''l2'', ''l1'', ''linf''}"
  shows "\<exists>K. distance_kernel dt kind e1 e2 = Inr K
             \<and> get_scaled_similarity dt e1 e2 kind t
                 = Inr (array_map (\<lambda>x. fdiv dt (fneg x) t) K)"
  using assms by (rule scaled_distance)

theorem get_scaled_similarity_distance_witness:
  "get_scaled_similarity Float32 (tensor 1 2 [[1, 5]]) (tensor 1 2 [[4, 1]]) ''linf'' (Fin False 2)
   = Inr (tensor 1 1 [[- 2]])"
proof -
  have r: "fround Float32 s 2 = Fin s 2" "fround Float32 s 3 = Fin s 3"
    "fround Float32 s 4 = Fin s 4" for s
    using fround_Ints[of 2 Float32 s] fround_Ints[of 3 Float32 s] fround_Ints[of 4 Float32 s]
    by simp_all
  have k: "distance_kernel Float32 ''linf'' (tensor 1 2 [[1, 5]]) (tensor 1 2 [[4, 1]])
           = Inr (tensor 1 1 [[4]])"
    by (simp add: distance_kernel_def pairwise_linf_distance_def tile_axis1_def broadcastable_def
        broadcast_sub_def fsub_def freduce_max_def tensor_def fp_of_real_def Let_def r)
  obtain K where K: "distance_kernel Float32 ''linf'' (tensor 1 2 [[1, 5]]) (tensor 1 2 [[4, 1]]) = Inr K"
    and g: "get_scaled_similarity Float32 (tensor 1 2 [[1, 5]]) (tensor 1 2 [[4, 1]]) ''linf'' (Fin False 2)
         = Inr (array_map (\<lambda>x. fdiv Float32 (fneg x) (Fin False 2)) K)"
    using get_scaled_similarity_distance[of "tensor 1 2 [[1, 5]]" "tensor 1 2 [[4, 1]]" "''linf''"
        Float32 "Fin False 2"]
    by (auto simp: tensor_def)
  from K have "K = tensor 1 1 [[4]]"
    unfolding k by simp
  then show ?thesis
    unfolding g by (simp add: array_map_def tensor_def fp_of_real_def r)
qed


section \<open>The temperature\<close>


lemma has_shape_array_map [simp]: "has_shape n m (array_map f a) = has_shape n m a"
  by (simp add: has_shape_def array_map_def is_shape_def list_all_iff)

lemma pairwise_l2_distance_shape:
  assumes "has_shape N d e1" and "has_shape M d e2"
    and "pairwise_l2_distance dt e1 e2 = Inr K"
  shows "has_shape N M K"
  using assms pairwise_l2_distance_rows[of e1 e2 dt]
  by (auto simp: has_shape_def is_shape_def list_all_iff)

lemma pairwise_l1_distance_shape:
  assumes "has_shape N d e1" and "has_shape M d e2"
    and "pairwise_l1_distance dt e1 e2 = Inr K"
  shows "has_shape N M K"
  using assms
  by (auto simp: has_shape_def is_shape_def list_all_iff pairwise_l1_distance_def Let_def
      tile_axis1_def split: if_splits)

lemma pairwise_linf_distance_shape:
  assumes "has_shape N d e1" and "has_shape M d e2"
    and "pairwise_linf_distance dt e1 e2 = Inr K"
  shows "has_shape N M K"
  using assms
  by (auto simp: has_shape_def is_shape_def list_all_iff pairwise_linf_distance_def Let_def
      tile_axis1_def split: if_splits)

lemma distance_kernel_shape:
  assumes "has_shape N d e1" and "has_shape M d e2"
    and "distance_kernel dt kind e1 e2 = Inr K"
  shows "has_shape N M K"
proof -
  have "\<exists>D. pairwise_l2_distance dt e1 e2 = Inr D"
    using assms(1,2) by (intro pairwise_defined) (simp add: has_shape_def)
  then obtain D where D: "pairwise_l2_distance dt e1 e2 = Inr D" ..
  show ?thesis
    using assms(3) pairwise_l2_distance_shape[OF assms(1,2) D]
      pairwise_l1_distance_shape[OF assms(1,2)] pairwise_linf_distance_shape[OF assms(1,2)]
    by (auto simp: distance_kernel_def D split: if_splits)
qed

lemma cosine_shape:
  assumes "has_shape N d e1" and "has_shape M d e2"
  shows "\<exists>S. matmul_transpose_b dt (normalize dt e1) (normalize dt e2) = Inr S \<and> has_shape N M S"
  using assms
  by (auto simp: has_shape_def is_shape_def list_all_iff matmul_transpose_b_def normalize_def)

lemma scaled_similarity:
  assumes "has_shape N d e1" and "has_shape M d e2"
    and "kind \<in> {''l2sq'', ''l2'', ''l1'', ''linf'', ''cosine''}"
  shows "\<exists>S. similarity_kernel dt kind e1 e2 = Inr S \<and> has_shape N M S
             \<and> get_scaled_similarity dt e1 e2 kind temperature
                 = Inr (array_map (\<lambda>s. fdiv dt s temperature) S)"
proof (cases "kind = ''cosine''")
  case True
  from cosine_shape[OF assms(1,2), of dt] obtain S
    where "matmul_transpose_b dt (normalize dt e1) (normalize dt e2) = Inr S" "has_shape N M S"
    by blast
  with True show ?thesis
    by (simp add: similarity_kernel_def get_scaled_similarity_def)
next
  case False
  with assms(3) have k: "kind \<in> {''l2sq'', ''l2'', ''l1'', ''linf''}" by simp
  have "ncols e1 = ncols e2" using assms(1,2) by (simp add: has_shape_def)
  from scaled_distance[OF this k, of dt temperature]
  obtain K where K: "distance_kernel dt kind e1 e2 = Inr K"
    and g: "get_scaled_similarity dt e1 e2 kind temperature
            = Inr (array_map (\<lambda>x. fdiv dt (fneg x) temperature) K)"
    by blast
  have "has_shape N M K" by (rule distance_kernel_shape[OF assms(1,2) K])
  with False K g show ?thesis
    by (simp add: similarity_kernel_def array_map_array_map)
qed



text \<open>
  C9: \<open>get_scaled_similarity\<close> does not check its temperature. The claim that a
  non-positive temperature is refused fails: with the temperature \<open>-1\<close> the kind \<^verbatim>\<open>l1\<close>
  returns the matrix \<open>[[1]]\<close> for the points \<open>[[0]]\<close> and \<open>[[1]]\<close>.
\<close>

theorem get_scaled_similarity_negative_temperature:
  "\<not> (\<forall>dt e1 e2 kind t. fle t (Fin False 0)
        \<longrightarrow> kind \<in> {''l2sq'', ''l2'', ''l1'', ''linf'', ''cosine''}
        \<longrightarrow> (\<exists>e. get_scaled_similarity dt e1 e2 kind t = Inl e))"
proof
  assume h: "\<forall>dt e1 e2 kind t. fle t (Fin False 0)
        \<longrightarrow> kind \<in> {''l2sq'', ''l2'', ''l1'', ''linf'', ''cosine''}
        \<longrightarrow> (\<exists>e. get_scaled_similarity dt e1 e2 kind t = Inl e)"
  have "get_scaled_similarity Float32 (tensor 1 1 [[0]]) (tensor 1 1 [[1]]) ''l1'' (Fin True 1)
        = Inr (tensor 1 1 [[1]])"
    by (simp add: get_scaled_similarity_def pairwise_l1_distance_def tile_axis1_def
          broadcastable_def broadcast_sub_def fsub_def fsum_def array_map_def tensor_def
          fp_of_real_def Let_def)
  moreover have "fle (Fin True 1) (Fin False 0)" by simp
  with h have "\<exists>e. get_scaled_similarity Float32 (tensor 1 1 [[0]]) (tensor 1 1 [[1]]) ''l1''
                     (Fin True 1) = Inl e"
    by blast
  ultimately show False by simp
qed

text \<open>
  C9, as the code has it: for arrays of shapes \<open>N \<times> d\<close> and \<open>M \<times> d\<close> and each of the five
  kinds, \<open>get_scaled_similarity\<close> returns, whatever the temperature is (positive, zero,
  negative, infinite or NaN), the \<open>N \<times> M\<close> similarity matrix of the kind with every entry
  divided by the temperature; it never fails on account of the temperature.
\<close>

theorem get_scaled_similarity_any_temperature:
  assumes "has_shape N d e1" and "has_shape M d e2"
    and "kind \<in> {''l2sq'', ''l2'', ''l1'', ''linf'', ''cosine''}"
  shows "\<exists>S. similarity_kernel dt kind e1 e2 = Inr S \<and> has_shape N M S
             \<and> get_scaled_similarity dt e1 e2 kind temperature
                 = Inr (array_map (\<lambda>s. fdiv dt s temperature) S)"
  using assms by (rule scaled_similarity)

theorem get_scaled_similarity_any_temperature_witness:
  "has_shape 1 1 (tensor 1 1 [[0]]) \<and> has_shape 1 1 (tensor 1 1 [[1]])
   \<and> similarity_kernel Float32 ''l2sq'' (tensor 1 1 [[0]]) (tensor 1 1 [[1]])
       = Inr (tensor 1 1 [[- 1]])
   \<and> get_scaled_similarity Float32 (tensor 1 1 [[0]]) (tensor 1 1 [[1]]) ''l2sq'' (Fin False 0)
       = Inr \<lparr>nrows = 1, ncols = 1, rows = [[Inf True]]\<rparr>"
proof -
  have a: "has_shape 1 1 (tensor 1 1 [[0]])" and b: "has_shape 1 1 (tensor 1 1 [[1]])"
    by (simp_all add: has_shape_def tensor_def is_shape_def)
  have r: "fround Float32 s 2 = Fin s 2" for s
    using fround_Ints[of 2 Float32 s] by simp
  have k: "similarity_kernel Float32 ''l2sq'' (tensor 1 1 [[0]]) (tensor 1 1 [[1]])
           = Inr (tensor 1 1 [[- 1]])"
    by (simp add: similarity_kernel_def distance_kernel_def pairwise_l2_distance_rows
        fsquare_def fsub_def fsum_def array_map_def tensor_def fp_of_real_def Let_def r)
  obtain S where S: "similarity_kernel Float32 ''l2sq'' (tensor 1 1 [[0]]) (tensor 1 1 [[1]]) = Inr S"
    and g: "get_scaled_similarity Float32 (tensor 1 1 [[0]]) (tensor 1 1 [[1]]) ''l2sq'' (Fin False 0)
            = Inr (array_map (\<lambda>s. fdiv Float32 s (Fin False 0)) S)"
    using get_scaled_similarity_any_temperature[OF a b, of "''l2sq''" Float32 "Fin False 0"]
    by auto
  from S have "S = tensor 1 1 [[- 1]]"
    unfolding k by simp
  then have "get_scaled_similarity Float32 (tensor 1 1 [[0]]) (tensor 1 1 [[1]]) ''l2sq'' (Fin False 0)
       = Inr \<lparr>nrows = 1, ncols = 1, rows = [[Inf True]]\<rparr>"
    unfolding g by (simp add: array_map_def tensor_def fp_of_real_def)
  with a b k show ?thesis by simp
qed


section \<open>Divergences: the embedding dimensions\<close>

text \<open>
  C10: when the embedding dimensions of the two batches differ, \<open>bhattacharyya_dist_mat\<close>
  and \<open>kl_divergence_mat\<close> both fail on their first check (the \<^verbatim>\<open>assert\<close> on
  \<^verbatim>\<open>mus2.shape[1]\<close>), whatever the arrays hold: nothing is computed before.
\<close>

theorem divergence_embedding_dimension_mismatch:
  assumes "ncols mus1 \<noteq> ncols mus2"
  shows "bhattacharyya_dist_mat dt mus1 logvars1 mus2 logvars2 = Inl AssertionError
       \<and> kl_divergence_mat dt mus1 logvars1 mus2 logvars2 = Inl AssertionError"
  using assms by (auto simp: bhattacharyya_dist_mat_def kl_divergence_mat_def Let_def)

theorem divergence_embedding_dimension_mismatch_witness:
  "bhattacharyya_dist_mat Float64 (tensor 1 2 [[0, 0]]) (tensor 1 2 [[0, 0]])
      (tensor 1 3 [[0, 0, 0]]) (tensor 1 3 [[0, 0, 0]]) = Inl AssertionError
   \<and> kl_divergence_mat Float64 (tensor 1 2 [[0, 0]]) (tensor 1 2 [[0, 0]])
      (tensor 1 3 [[0, 0, 0]]) (tensor 1 3 [[0, 0, 0]]) = Inl AssertionError"
  using divergence_embedding_dimension_mismatch
     [of "tensor 1 2 [[0, 0]]" "tensor 1 3 [[0, 0, 0]]" Float64 "tensor 1 2 [[0, 0]]"
         "tensor 1 3 [[0, 0, 0]]"]
  by (simp add: tensor_def)

end
